theory Spec2Isabelle
  imports Complex_Main
begin

section \<open>The navigation plugin of the RUM web client\<close>

text \<open>
  The development embeds the class \<open>NavigationPlugin\<close> (the navigation plugin of the web
  client) together with the part of the browser it talks to: \<open>window.performance\<close>, the
  listeners of the window's \<open>load\<close> event and the timers set with \<open>setTimeout\<close>.

  A JavaScript \<open>number\<close> is modelled as a real number: the attributes of
  \<open>PerformanceTiming\<close> are integers, those of \<open>PerformanceNavigationTiming\<close> are
  finite doubles, and subtraction is taken as exact. The only operation of the plugin
  that can leave the finite numbers is the division of the compression ratio, so its
  result has a type of its own, \<open>jsnum\<close>, with the values a division by zero gives.
\<close>

subsection \<open>Numbers\<close>

datatype jsnum = Num real | Infinity | MinusInfinity | NaN

text \<open>The operator \<open>/\<close> of JavaScript on two finite numbers.\<close>

definition js_div :: "real \<Rightarrow> real \<Rightarrow> jsnum" where
  "js_div a b =
     (if b = 0 then (if a = 0 then NaN else if 0 < a then Infinity else MinusInfinity)
      else Num (a / b))"

text \<open>\<open>Boolean(x)\<close> on a finite number.\<close>

definition Boolean :: "real \<Rightarrow> bool" where
  "Boolean x = (x \<noteq> 0)"

subsection \<open>What the browser exposes\<close>

text \<open>\<open>performance.timing\<close> (Navigation Timing Level 1): absolute timestamps.\<close>

record PerformanceTiming =
  navigationStart :: real
  unloadEventStart :: real
  unloadEventEnd :: real
  redirectStart :: real
  redirectEnd :: real
  fetchStart :: real
  domainLookupStart :: real
  domainLookupEnd :: real
  connectStart :: real
  connectEnd :: real
  secureConnectionStart :: real
  requestStart :: real
  responseStart :: real
  responseEnd :: real
  domInteractive :: real
  domContentLoadedEventStart :: real
  domContentLoadedEventEnd :: real
  domComplete :: real
  loadEventStart :: real
  loadEventEnd :: real

text \<open>
  An entry of \<open>performance.getEntriesByType('navigation')\<close> (Navigation Timing Level 2):
  timestamps relative to the start of the navigation. The attribute \<open>type\<close> of the
  entry is the field \<open>navType\<close>.
\<close>

record PerformanceNavigationTiming =
  initiatorType :: string
  navType :: string
  startTime :: real
  unloadEventStart :: real
  unloadEventEnd :: real
  redirectCount :: real
  redirectStart :: real
  redirectEnd :: real
  workerStart :: real
  fetchStart :: real
  domainLookupStart :: real
  domainLookupEnd :: real
  nextHopProtocol :: string
  connectStart :: real
  connectEnd :: real
  secureConnectionStart :: real
  requestStart :: real
  responseStart :: real
  responseEnd :: real
  domInteractive :: real
  domContentLoadedEventStart :: real
  domContentLoadedEventEnd :: real
  domComplete :: real
  loadEventStart :: real
  loadEventEnd :: real
  duration :: real
  transferSize :: real
  encodedBodySize :: real
  decodedBodySize :: real

subsection \<open>The event the plugin records\<close>

text \<open>
  \<open>NavigationEvent\<close> is declared in \<open>events/navigation-event\<close>, outside the sources
  at hand: its fields here are those the two object literals of the plugin write, and
  the fields only the Level 2 handler writes are optional.
\<close>

record NavigationEvent =
  version :: string
  initiatorType :: string
  navigationType :: "string option"
  startTime :: real
  unloadEventStart :: real
  promptForUnload :: real
  redirectCount :: "real option"
  redirectStart :: real
  redirectTime :: real
  workerStart :: "real option"
  workerTime :: "real option"
  fetchStart :: real
  domainLookupStart :: real
  dns :: real
  nextHopProtocol :: "string option"
  connectStart :: real
  connect :: real
  secureConnectionStart :: real
  tlsTime :: real
  requestStart :: real
  timeToFirstByte :: real
  responseStart :: real
  responseTime :: real
  domInteractive :: real
  domContentLoadedEventStart :: real
  domContentLoaded :: real
  domComplete :: real
  domProcessingTime :: real
  loadEventStart :: real
  loadEventTime :: real
  duration :: real
  headerSize :: "real option"
  transferSize :: "real option"
  compressionRatio :: "jsnum option"
  navigationTimingLevel :: nat

subsection \<open>The two normalisations\<close>

text \<open>
  The object literal \<open>eventDataNavigationTimingLevel1\<close> that \<open>recordNavigation\<close>
  builds from \<open>performance.timing\<close>, with \<open>origin = entryData.navigationStart\<close>.
\<close>

definition eventDataNavigationTimingLevel1 :: "PerformanceTiming \<Rightarrow> NavigationEvent" where
  "eventDataNavigationTimingLevel1 entryData =
     (let origin = PerformanceTiming.navigationStart entryData in
      \<lparr> version = ''1.0.0'',
        initiatorType = ''navigation'',
        navigationType = None,
        startTime = 0,
        unloadEventStart =
          (if PerformanceTiming.unloadEventStart entryData > 0
           then PerformanceTiming.unloadEventStart entryData - origin else 0),
        promptForUnload =
          PerformanceTiming.unloadEventEnd entryData - PerformanceTiming.unloadEventStart entryData,
        redirectCount = None,
        redirectStart =
          (if PerformanceTiming.redirectStart entryData > 0
           then PerformanceTiming.redirectStart entryData - origin else 0),
        redirectTime =
          PerformanceTiming.redirectEnd entryData - PerformanceTiming.redirectStart entryData,
        workerStart = None,
        workerTime = None,
        fetchStart =
          (if PerformanceTiming.fetchStart entryData > 0
           then PerformanceTiming.fetchStart entryData - origin else 0),
        domainLookupStart =
          (if PerformanceTiming.domainLookupStart entryData > 0
           then PerformanceTiming.domainLookupStart entryData - origin else 0),
        dns =
          PerformanceTiming.domainLookupEnd entryData - PerformanceTiming.domainLookupStart entryData,
        nextHopProtocol = None,
        connectStart =
          (if PerformanceTiming.connectStart entryData > 0
           then PerformanceTiming.connectStart entryData - origin else 0),
        connect = PerformanceTiming.connectEnd entryData - PerformanceTiming.connectStart entryData,
        secureConnectionStart =
          (if PerformanceTiming.secureConnectionStart entryData > 0
           then PerformanceTiming.secureConnectionStart entryData - origin else 0),
        tlsTime =
          (if PerformanceTiming.secureConnectionStart entryData > 0
           then PerformanceTiming.connectEnd entryData
                - PerformanceTiming.secureConnectionStart entryData
           else 0),
        requestStart =
          (if PerformanceTiming.requestStart entryData > 0
           then PerformanceTiming.requestStart entryData - origin else 0),
        timeToFirstByte =
          PerformanceTiming.responseStart entryData - PerformanceTiming.requestStart entryData,
        responseStart =
          (if PerformanceTiming.responseStart entryData > 0
           then PerformanceTiming.responseStart entryData - origin else 0),
        responseTime =
          (if PerformanceTiming.responseStart entryData > 0
           then PerformanceTiming.responseEnd entryData - PerformanceTiming.responseStart entryData
           else 0),
        domInteractive =
          (if PerformanceTiming.domInteractive entryData > 0
           then PerformanceTiming.domInteractive entryData - origin else 0),
        domContentLoadedEventStart =
          (if PerformanceTiming.domContentLoadedEventStart entryData > 0
           then PerformanceTiming.domContentLoadedEventStart entryData - origin else 0),
        domContentLoaded =
          PerformanceTiming.domContentLoadedEventEnd entryData
          - PerformanceTiming.domContentLoadedEventStart entryData,
        domComplete =
          (if PerformanceTiming.domComplete entryData > 0
           then PerformanceTiming.domComplete entryData - origin else 0),
        domProcessingTime =
          PerformanceTiming.loadEventStart entryData - PerformanceTiming.responseEnd entryData,
        loadEventStart =
          (if PerformanceTiming.loadEventStart entryData > 0
           then PerformanceTiming.loadEventStart entryData - origin else 0),
        loadEventTime =
          PerformanceTiming.loadEventEnd entryData - PerformanceTiming.loadEventStart entryData,
        duration =
          PerformanceTiming.loadEventEnd entryData - PerformanceTiming.navigationStart entryData,
        headerSize = None,
        transferSize = None,
        compressionRatio = None,
        navigationTimingLevel = 1 \<rparr>)"

text \<open>
  The object literal \<open>eventDataNavigationTimingLevel2\<close> that the Level 2 handler builds
  from the entry it is given.
\<close>

definition eventDataNavigationTimingLevel2 :: "PerformanceNavigationTiming \<Rightarrow> NavigationEvent" where
  "eventDataNavigationTimingLevel2 entryData =
     \<lparr> version = ''1.0.0'',
       initiatorType = PerformanceNavigationTiming.initiatorType entryData,
       navigationType = Some (navType entryData),
       startTime = PerformanceNavigationTiming.startTime entryData,
       unloadEventStart = PerformanceNavigationTiming.unloadEventStart entryData,
       promptForUnload =
         PerformanceNavigationTiming.unloadEventEnd entryData
         - PerformanceNavigationTiming.unloadEventStart entryData,
       redirectCount = Some (PerformanceNavigationTiming.redirectCount entryData),
       redirectStart = PerformanceNavigationTiming.redirectStart entryData,
       redirectTime =
         PerformanceNavigationTiming.redirectEnd entryData
         - PerformanceNavigationTiming.redirectStart entryData,
       workerStart = Some (PerformanceNavigationTiming.workerStart entryData),
       workerTime =
         Some (if PerformanceNavigationTiming.workerStart entryData > 0
               then PerformanceNavigationTiming.fetchStart entryData
                    - PerformanceNavigationTiming.workerStart entryData
               else 0),
       fetchStart = PerformanceNavigationTiming.fetchStart entryData,
       domainLookupStart = PerformanceNavigationTiming.domainLookupStart entryData,
       dns =
         PerformanceNavigationTiming.domainLookupEnd entryData
         - PerformanceNavigationTiming.domainLookupStart entryData,
       nextHopProtocol = Some (PerformanceNavigationTiming.nextHopProtocol entryData),
       connectStart = PerformanceNavigationTiming.connectStart entryData,
       connect =
         PerformanceNavigationTiming.connectEnd entryData
         - PerformanceNavigationTiming.connectStart entryData,
       secureConnectionStart = PerformanceNavigationTiming.secureConnectionStart entryData,
       tlsTime =
         (if PerformanceNavigationTiming.secureConnectionStart entryData > 0
          then PerformanceNavigationTiming.connectEnd entryData
               - PerformanceNavigationTiming.secureConnectionStart entryData
          else 0),
       requestStart = PerformanceNavigationTiming.requestStart entryData,
       timeToFirstByte =
         PerformanceNavigationTiming.responseStart entryData
         - PerformanceNavigationTiming.requestStart entryData,
       responseStart = PerformanceNavigationTiming.responseStart entryData,
       responseTime =
         (if PerformanceNavigationTiming.responseStart entryData > 0
          then PerformanceNavigationTiming.responseEnd entryData
               - PerformanceNavigationTiming.responseStart entryData
          else 0),
       domInteractive = PerformanceNavigationTiming.domInteractive entryData,
       domContentLoadedEventStart = PerformanceNavigationTiming.domContentLoadedEventStart entryData,
       domContentLoaded =
         PerformanceNavigationTiming.domContentLoadedEventEnd entryData
         - PerformanceNavigationTiming.domContentLoadedEventStart entryData,
       domComplete = PerformanceNavigationTiming.domComplete entryData,
       domProcessingTime =
         PerformanceNavigationTiming.loadEventStart entryData
         - PerformanceNavigationTiming.responseEnd entryData,
       loadEventStart = PerformanceNavigationTiming.loadEventStart entryData,
       loadEventTime =
         PerformanceNavigationTiming.loadEventEnd entryData
         - PerformanceNavigationTiming.loadEventStart entryData,
       duration = PerformanceNavigationTiming.duration entryData,
       headerSize =
         Some (PerformanceNavigationTiming.transferSize entryData - encodedBodySize entryData),
       transferSize = Some (PerformanceNavigationTiming.transferSize entryData),
       compressionRatio =
         Some (if encodedBodySize entryData > 0
               then js_div (decodedBodySize entryData) (encodedBodySize entryData)
               else Num 0),
       navigationTimingLevel = 2 \<rparr>"

subsection \<open>The plugin and the browser around it\<close>

text \<open>
  A recording callback is an opaque function of the client; it is identified by a number,
  and a call of it is an entry of the log \<open>recorded\<close> below.
\<close>

type_synonym RecordEvent = nat

text \<open>
  \<open>PluginContext\<close> and \<open>RecordEvent\<close> are declared in \<open>plugins/Plugin\<close>; of the
  context only the field \<open>record\<close> is read (here \<open>record'\<close>).
\<close>

record PluginContext =
  record' :: RecordEvent

record NavigationPlugin =
  pluginId :: string
  enabled :: bool
  recordEvent :: "RecordEvent option"

text \<open>
  Modelled from the spec: the constant \<open>PERFORMANCE_NAVIGATION_EVENT_TYPE\<close> is imported
  from \<open>utils/constant\<close>, which is not among the sources; the spec calls it a fixed
  event-type identifier, so it is one opaque value.
\<close>

datatype event_type = PERFORMANCE_NAVIGATION_EVENT_TYPE

text \<open>
  The two functions of the plugin that the browser calls back: the arrow function
  \<open>this.eventListener\<close>, given to \<open>addEventListener\<close>, and the closure
  \<open>recordNavigation\<close>, given to \<open>setTimeout\<close>.
\<close>

datatype handler = EventListener | RecordNavigation

record Performance =
  getEntriesByType_NAVIGATION :: "PerformanceNavigationTiming list"
  timing :: PerformanceTiming

text \<open>
  \<open>performance\<close> is \<open>None\<close> in a browser without the performance API. The listeners of
  the \<open>load\<close> event and the pending timers are kept in the order they were added.
\<close>

record Window =
  performance :: "Performance option"
  loadListeners :: "handler list"
  timers :: "handler list"

record world =
  plugin :: NavigationPlugin
  window :: Window
  recorded :: "(RecordEvent \<times> event_type \<times> NavigationEvent) list"

text \<open>Reading \<open>performance\<close> where the browser has none throws.\<close>

datatype js_error = ReferenceError

definition NAVIGATION_EVENT_PLUGIN_ID :: string where
  "NAVIGATION_EVENT_PLUGIN_ID = ''com.amazonaws.rum.navigation''"

definition constructor :: NavigationPlugin where
  "constructor =
     \<lparr> pluginId = NAVIGATION_EVENT_PLUGIN_ID, enabled = True, recordEvent = None \<rparr>"

definition getPluginId :: "world \<Rightarrow> string" where
  "getPluginId w = pluginId (plugin w)"

text \<open>
  \<open>window.addEventListener(LOAD, h)\<close>: the DOM appends the listener unless the same
  callback is already registered for the event. \<open>window.removeEventListener(LOAD, h)\<close>
  removes it if it is there.
\<close>

definition addEventListener :: "handler \<Rightarrow> world \<Rightarrow> world" where
  "addEventListener h w =
     w\<lparr>window := (window w)\<lparr>loadListeners :=
        (if h \<in> set (loadListeners (window w)) then loadListeners (window w)
         else loadListeners (window w) @ [h])\<rparr>\<rparr>"

definition removeEventListener :: "handler \<Rightarrow> world \<Rightarrow> world" where
  "removeEventListener h w =
     w\<lparr>window := (window w)\<lparr>loadListeners := remove1 h (loadListeners (window w))\<rparr>\<rparr>"

text \<open>\<open>setTimeout(h, 0)\<close>: the callback runs in a later turn of the event loop.\<close>

definition setTimeout :: "handler \<Rightarrow> world \<Rightarrow> world" where
  "setTimeout h w = w\<lparr>window := (window w)\<lparr>timers := timers (window w) @ [h]\<rparr>\<rparr>"

text \<open>A call \<open>this.recordEvent(type, eventData)\<close> of the callback \<open>cb\<close>.\<close>

definition call_recordEvent :: "RecordEvent \<Rightarrow> event_type \<Rightarrow> NavigationEvent \<Rightarrow> world \<Rightarrow> world" where
  "call_recordEvent cb ty eventData w = w\<lparr>recorded := recorded w @ [(cb, ty, eventData)]\<rparr>"

definition hasTheWindowLoadEventFired :: "world \<Rightarrow> bool" where
  "hasTheWindowLoadEventFired w =
     (case performance (window w) of
        None \<Rightarrow> False
      | Some p \<Rightarrow>
          if length (getEntriesByType_NAVIGATION p) \<noteq> 0
          then (let navData = getEntriesByType_NAVIGATION p ! 0
                in Boolean (PerformanceNavigationTiming.loadEventEnd navData))
          else False)"

text \<open>The closure \<open>recordNavigation\<close> of the Level 1 handler, run by the timer.\<close>

definition recordNavigation :: "world \<Rightarrow> js_error + world" where
  "recordNavigation w =
     (case performance (window w) of
        None \<Rightarrow> Inl ReferenceError
      | Some p \<Rightarrow>
          (let entryData = timing p;
               eventData = eventDataNavigationTimingLevel1 entryData
           in case recordEvent (plugin w) of
                Some cb \<Rightarrow> Inr (call_recordEvent cb PERFORMANCE_NAVIGATION_EVENT_TYPE eventData w)
              | None \<Rightarrow> Inr w))"

definition performanceNavigationEventHandlerTimingLevel1 :: "world \<Rightarrow> world" where
  "performanceNavigationEventHandlerTimingLevel1 w = setTimeout RecordNavigation w"

definition performanceNavigationEventHandlerTimingLevel2 ::
    "PerformanceNavigationTiming \<Rightarrow> world \<Rightarrow> world" where
  "performanceNavigationEventHandlerTimingLevel2 entryData w =
     (let eventData = eventDataNavigationTimingLevel2 entryData
      in case recordEvent (plugin w) of
           Some cb \<Rightarrow> call_recordEvent cb PERFORMANCE_NAVIGATION_EVENT_TYPE eventData w
         | None \<Rightarrow> w)"

definition eventListener :: "world \<Rightarrow> js_error + world" where
  "eventListener w =
     (case performance (window w) of
        None \<Rightarrow> Inl ReferenceError
      | Some p \<Rightarrow>
          if length (getEntriesByType_NAVIGATION p) = 0
          then Inr (performanceNavigationEventHandlerTimingLevel1 w)
          else Inr (performanceNavigationEventHandlerTimingLevel2
                      (getEntriesByType_NAVIGATION p ! 0) w))"

definition load :: "PluginContext \<Rightarrow> world \<Rightarrow> js_error + world" where
  "load context w =
     (let w1 = w\<lparr>plugin := (plugin w)\<lparr>recordEvent := Some (record' context)\<rparr>\<rparr>
      in if enabled (plugin w1)
         then (if hasTheWindowLoadEventFired w1 then eventListener w1
               else Inr (addEventListener EventListener w1))
         else Inr w1)"

definition enable :: "world \<Rightarrow> world" where
  "enable w =
     (if enabled (plugin w) then w
      else addEventListener EventListener (w\<lparr>plugin := (plugin w)\<lparr>enabled := True\<rparr>\<rparr>))"

text \<open>
  In \<open>disable\<close> the test \<open>if (this.eventListener)\<close> always succeeds: the field is
  initialised with the arrow function and never assigned again.
\<close>

definition disable :: "world \<Rightarrow> world" where
  "disable w =
     (if \<not> enabled (plugin w) then w
      else removeEventListener EventListener (w\<lparr>plugin := (plugin w)\<lparr>enabled := False\<rparr>\<rparr>))"

subsection \<open>The browser calling back\<close>

text \<open>
  What the browser does with the handlers it holds: the \<open>load\<close> event calls the
  registered listeners in order, and a later turn of the event loop runs the timers that
  are pending, which are then no longer pending. A handler that throws ends the run.
\<close>

fun invoke :: "handler \<Rightarrow> world \<Rightarrow> js_error + world" where
  "invoke EventListener w = eventListener w"
| "invoke RecordNavigation w = recordNavigation w"

fun invokeAll :: "handler list \<Rightarrow> world \<Rightarrow> js_error + world" where
  "invokeAll [] w = Inr w"
| "invokeAll (h # hs) w =
     (case invoke h w of Inl e \<Rightarrow> Inl e | Inr w' \<Rightarrow> invokeAll hs w')"

definition dispatchLoadEvent :: "world \<Rightarrow> js_error + world" where
  "dispatchLoadEvent w = invokeAll (loadListeners (window w)) w"

definition runTimers :: "world \<Rightarrow> js_error + world" where
  "runTimers w =
     invokeAll (timers (window w)) (w\<lparr>window := (window w)\<lparr>timers := []\<rparr>\<rparr>)"

subsection \<open>Sample pages\<close>

text \<open>
  A legacy browser: \<open>performance.timing\<close> of a load that started at 1000 and whose
  \<open>load\<close> event ended at 1450, with a request at 1200 answered from 1250 to 1300.
\<close>

definition legacy_timing :: PerformanceTiming where
  "legacy_timing =
     \<lparr> navigationStart = 1000, unloadEventStart = 0, unloadEventEnd = 0,
       redirectStart = 0, redirectEnd = 0, fetchStart = 1010,
       domainLookupStart = 1020, domainLookupEnd = 1050,
       connectStart = 1050, connectEnd = 1150, secureConnectionStart = 1080,
       requestStart = 1200, responseStart = 1250, responseEnd = 1300,
       domInteractive = 1320, domContentLoadedEventStart = 1330,
       domContentLoadedEventEnd = 1340, domComplete = 1390,
       loadEventStart = 1400, loadEventEnd = 1450 \<rparr>"

text \<open>The same record with the start of the response and the start of the unload at 0.\<close>

definition timing_responseStart_0 :: PerformanceTiming where
  "timing_responseStart_0 = legacy_timing\<lparr>PerformanceTiming.responseStart := 0\<rparr>"

definition timing_unloadEventStart_0 :: PerformanceTiming where
  "timing_unloadEventStart_0 = legacy_timing\<lparr>PerformanceTiming.unloadEventEnd := 1005\<rparr>"

text \<open>The same load after a redirect, on a page that replaced another one.\<close>

definition redirected_timing :: PerformanceTiming where
  "redirected_timing =
     legacy_timing\<lparr>PerformanceTiming.unloadEventStart := 1004,
       PerformanceTiming.unloadEventEnd := 1006,
       PerformanceTiming.redirectStart := 1001,
       PerformanceTiming.redirectEnd := 1009\<rparr>"

text \<open>A record in which the earlier boundary of every duration is 0.\<close>

definition timing_starts_0 :: PerformanceTiming where
  "timing_starts_0 =
     \<lparr> navigationStart = 0, unloadEventStart = 0, unloadEventEnd = 5,
       redirectStart = 0, redirectEnd = 6, fetchStart = 0,
       domainLookupStart = 0, domainLookupEnd = 7,
       connectStart = 0, connectEnd = 8, secureConnectionStart = 0,
       requestStart = 0, responseStart = 0, responseEnd = 0,
       domInteractive = 0, domContentLoadedEventStart = 0,
       domContentLoadedEventEnd = 9, domComplete = 0,
       loadEventStart = 0, loadEventEnd = 10 \<rparr>"

text \<open>
  A modern browser: the navigation entry of a load that transferred 500 bytes for a body
  of 300 bytes, 900 bytes once decoded, and whose \<open>load\<close> event ended at 450.
\<close>

definition modern_entry :: PerformanceNavigationTiming where
  "modern_entry =
     \<lparr> PerformanceNavigationTiming.initiatorType = ''navigation'',
       navType = ''navigate'', startTime = 0,
       unloadEventStart = 0, unloadEventEnd = 0, redirectCount = 0,
       redirectStart = 0, redirectEnd = 0, workerStart = 0, fetchStart = 10,
       domainLookupStart = 20, domainLookupEnd = 50, nextHopProtocol = ''h2'',
       connectStart = 50, connectEnd = 150, secureConnectionStart = 80,
       requestStart = 200, responseStart = 250, responseEnd = 300,
       domInteractive = 320, domContentLoadedEventStart = 330,
       domContentLoadedEventEnd = 340, domComplete = 390,
       loadEventStart = 400, loadEventEnd = 450, duration = 450,
       transferSize = 500, encodedBodySize = 300, decodedBodySize = 900 \<rparr>"

text \<open>The same entry with an empty body, then while the page is still loading.\<close>

definition modern_entry_empty_body :: PerformanceNavigationTiming where
  "modern_entry_empty_body =
     modern_entry\<lparr>encodedBodySize := 0, decodedBodySize := 0\<rparr>"

definition modern_entry_loading :: PerformanceNavigationTiming where
  "modern_entry_loading =
     modern_entry\<lparr>PerformanceNavigationTiming.domComplete := 0,
       PerformanceNavigationTiming.loadEventStart := 0,
       PerformanceNavigationTiming.loadEventEnd := 0,
       PerformanceNavigationTiming.duration := 0\<rparr>"

text \<open>The same entry with the start of the \<open>DOMContentLoaded\<close> event at 0.\<close>

definition modern_entry_dcl_0 :: PerformanceNavigationTiming where
  "modern_entry_dcl_0 =
     modern_entry\<lparr>PerformanceNavigationTiming.domContentLoadedEventStart := 0\<rparr>"

text \<open>An entry in which the earlier boundary of every duration is 0.\<close>

definition entry_starts_0 :: PerformanceNavigationTiming where
  "entry_starts_0 =
     modern_entry\<lparr>PerformanceNavigationTiming.unloadEventEnd := 5,
       PerformanceNavigationTiming.redirectEnd := 6,
       PerformanceNavigationTiming.domainLookupStart := 0,
       PerformanceNavigationTiming.domainLookupEnd := 7,
       PerformanceNavigationTiming.connectStart := 0,
       PerformanceNavigationTiming.connectEnd := 8,
       PerformanceNavigationTiming.secureConnectionStart := 0,
       PerformanceNavigationTiming.requestStart := 0,
       PerformanceNavigationTiming.responseStart := 0,
       PerformanceNavigationTiming.responseEnd := 0,
       PerformanceNavigationTiming.domContentLoadedEventStart := 0,
       PerformanceNavigationTiming.domContentLoadedEventEnd := 9,
       PerformanceNavigationTiming.loadEventStart := 0,
       PerformanceNavigationTiming.loadEventEnd := 10\<rparr>"

definition legacy_performance :: Performance where
  "legacy_performance = \<lparr> getEntriesByType_NAVIGATION = [], timing = legacy_timing \<rparr>"

definition modern_performance :: Performance where
  "modern_performance =
     \<lparr> getEntriesByType_NAVIGATION = [modern_entry, modern_entry_empty_body],
       timing = legacy_timing \<rparr>"

definition loading_performance :: Performance where
  "loading_performance =
     \<lparr> getEntriesByType_NAVIGATION = [modern_entry_loading], timing = legacy_timing \<rparr>"

text \<open>A page on which the plugin has just been constructed.\<close>

definition fresh_world :: "Performance option \<Rightarrow> world" where
  "fresh_world p =
     \<lparr> plugin = constructor,
       window = \<lparr> performance = p, loadListeners = [], timers = [] \<rparr>,
       recorded = [] \<rparr>"

definition sample_context :: PluginContext where
  "sample_context = \<lparr> record' = 7 \<rparr>"

text \<open>The same page once a recording callback is stored.\<close>

definition initialized_world :: "Performance option \<Rightarrow> world" where
  "initialized_world p =
     (fresh_world p)\<lparr>plugin := constructor\<lparr>recordEvent := Some (record' sample_context)\<rparr>\<rparr>"

subsection \<open>Facts about the model\<close>

lemma navigationTimingLevel_Level1 [simp]:
  "navigationTimingLevel (eventDataNavigationTimingLevel1 t) = 1"
  by (simp add: eventDataNavigationTimingLevel1_def Let_def)

lemma navigationTimingLevel_Level2 [simp]:
  "navigationTimingLevel (eventDataNavigationTimingLevel2 e) = 2"
  by (simp add: eventDataNavigationTimingLevel2_def)

lemma hasTheWindowLoadEventFired_plugin [simp]:
  "hasTheWindowLoadEventFired (w\<lparr>plugin := x\<rparr>) = hasTheWindowLoadEventFired w"
  by (simp add: hasTheWindowLoadEventFired_def)

text \<open>
  The check of the \<open>load\<close> event reads the first navigation entry; the listener takes
  the Level 1 handler when there is no entry and the Level 2 handler on the first entry
  otherwise.
\<close>

lemma hasTheWindowLoadEventFired_entries:
  "hasTheWindowLoadEventFired w \<longleftrightarrow>
     (\<exists>p e es. performance (window w) = Some p
        \<and> getEntriesByType_NAVIGATION p = e # es
        \<and> PerformanceNavigationTiming.loadEventEnd e \<noteq> 0)"
proof (cases "performance (window w)")
  case None
  then show ?thesis by (simp add: hasTheWindowLoadEventFired_def)
next
  case (Some p)
  then show ?thesis
    by (cases "getEntriesByType_NAVIGATION p")
      (simp_all add: hasTheWindowLoadEventFired_def Boolean_def Let_def)
qed

lemma eventListener_no_entries:
  "performance (window w) = Some p \<Longrightarrow> getEntriesByType_NAVIGATION p = [] \<Longrightarrow>
   eventListener w = Inr (performanceNavigationEventHandlerTimingLevel1 w)"
  by (simp add: eventListener_def)

lemma eventListener_first_entry:
  "performance (window w) = Some p \<Longrightarrow> getEntriesByType_NAVIGATION p = e # es \<Longrightarrow>
   eventListener w = Inr (performanceNavigationEventHandlerTimingLevel2 e w)"
  by (simp add: eventListener_def)

text \<open>
  With no other timer pending, running the timers after \<open>setTimeout h\<close> is calling
  \<open>h\<close>. The two places where the callback is called append to the log, or leave the
  world as it is when no callback is stored.
\<close>

lemma runTimers_setTimeout_idle:
  "timers (window w) = [] \<Longrightarrow> runTimers (setTimeout h w) = invoke h w"
  by (cases w, cases "window w") (simp add: runTimers_def setTimeout_def split: sum.splits)

lemma runTimers_idle:
  "timers (window w) = [] \<Longrightarrow> runTimers w = Inr w"
  by (cases w, cases "window w") (simp add: runTimers_def)

lemma recordNavigation_cases:
  "performance (window w) = Some p \<Longrightarrow>
   recordNavigation w =
     Inr (w\<lparr>recorded := recorded w @
        (case recordEvent (plugin w) of
           None \<Rightarrow> []
         | Some cb \<Rightarrow> [(cb, PERFORMANCE_NAVIGATION_EVENT_TYPE,
                        eventDataNavigationTimingLevel1 (timing p))])\<rparr>)"
  by (simp add: recordNavigation_def call_recordEvent_def Let_def split: option.splits)

lemma Level2_cases:
  "performanceNavigationEventHandlerTimingLevel2 e w =
     w\<lparr>recorded := recorded w @
        (case recordEvent (plugin w) of
           None \<Rightarrow> []
         | Some cb \<Rightarrow> [(cb, PERFORMANCE_NAVIGATION_EVENT_TYPE,
                        eventDataNavigationTimingLevel2 e)])\<rparr>"
  by (simp add: performanceNavigationEventHandlerTimingLevel2_def call_recordEvent_def Let_def
      split: option.splits)

section \<open>The Level 1 normalisation\<close>

text \<open>
  C2. In the event built from \<open>performance.timing\<close>, each of the twelve offset fields is
  the raw timestamp minus \<open>navigationStart\<close> when the raw timestamp is greater than 0,
  and 0 otherwise; so it is not negative when the raw timestamp is at or after
  \<open>navigationStart\<close>.
\<close>

theorem level1_offset_fields:
  "let ev = eventDataNavigationTimingLevel1 t; origin = navigationStart t in
      (unloadEventStart ev =
          (if PerformanceTiming.unloadEventStart t > 0 then PerformanceTiming.unloadEventStart t - origin else 0)
        \<and> (origin \<le> PerformanceTiming.unloadEventStart t \<longrightarrow> 0 \<le> unloadEventStart ev))
      \<and> (redirectStart ev =
          (if PerformanceTiming.redirectStart t > 0 then PerformanceTiming.redirectStart t - origin else 0)
        \<and> (origin \<le> PerformanceTiming.redirectStart t \<longrightarrow> 0 \<le> redirectStart ev))
      \<and> (fetchStart ev =
          (if PerformanceTiming.fetchStart t > 0 then PerformanceTiming.fetchStart t - origin else 0)
        \<and> (origin \<le> PerformanceTiming.fetchStart t \<longrightarrow> 0 \<le> fetchStart ev))
      \<and> (domainLookupStart ev =
          (if PerformanceTiming.domainLookupStart t > 0 then PerformanceTiming.domainLookupStart t - origin else 0)
        \<and> (origin \<le> PerformanceTiming.domainLookupStart t \<longrightarrow> 0 \<le> domainLookupStart ev))
      \<and> (connectStart ev =
          (if PerformanceTiming.connectStart t > 0 then PerformanceTiming.connectStart t - origin else 0)
        \<and> (origin \<le> PerformanceTiming.connectStart t \<longrightarrow> 0 \<le> connectStart ev))
      \<and> (secureConnectionStart ev =
          (if PerformanceTiming.secureConnectionStart t > 0 then PerformanceTiming.secureConnectionStart t - origin else 0)
        \<and> (origin \<le> PerformanceTiming.secureConnectionStart t \<longrightarrow> 0 \<le> secureConnectionStart ev))
      \<and> (requestStart ev =
          (if PerformanceTiming.requestStart t > 0 then PerformanceTiming.requestStart t - origin else 0)
        \<and> (origin \<le> PerformanceTiming.requestStart t \<longrightarrow> 0 \<le> requestStart ev))
      \<and> (responseStart ev =
          (if PerformanceTiming.responseStart t > 0 then PerformanceTiming.responseStart t - origin else 0)
        \<and> (origin \<le> PerformanceTiming.responseStart t \<longrightarrow> 0 \<le> responseStart ev))
      \<and> (domInteractive ev =
          (if PerformanceTiming.domInteractive t > 0 then PerformanceTiming.domInteractive t - origin else 0)
        \<and> (origin \<le> PerformanceTiming.domInteractive t \<longrightarrow> 0 \<le> domInteractive ev))
      \<and> (domContentLoadedEventStart ev =
          (if PerformanceTiming.domContentLoadedEventStart t > 0 then PerformanceTiming.domContentLoadedEventStart t - origin else 0)
        \<and> (origin \<le> PerformanceTiming.domContentLoadedEventStart t \<longrightarrow> 0 \<le> domContentLoadedEventStart ev))
      \<and> (domComplete ev =
          (if PerformanceTiming.domComplete t > 0 then PerformanceTiming.domComplete t - origin else 0)
        \<and> (origin \<le> PerformanceTiming.domComplete t \<longrightarrow> 0 \<le> domComplete ev))
      \<and> (loadEventStart ev =
          (if PerformanceTiming.loadEventStart t > 0 then PerformanceTiming.loadEventStart t - origin else 0)
        \<and> (origin \<le> PerformanceTiming.loadEventStart t \<longrightarrow> 0 \<le> loadEventStart ev))"
  by (simp add: eventDataNavigationTimingLevel1_def Let_def)

theorem level1_offset_fields_witness:
  "navigationStart redirected_timing \<le> PerformanceTiming.unloadEventStart redirected_timing
   \<and> unloadEventStart (eventDataNavigationTimingLevel1 redirected_timing) = 4
   \<and> navigationStart redirected_timing \<le> PerformanceTiming.redirectStart redirected_timing
   \<and> redirectStart (eventDataNavigationTimingLevel1 redirected_timing) = 1
   \<and> navigationStart redirected_timing \<le> PerformanceTiming.fetchStart redirected_timing
   \<and> fetchStart (eventDataNavigationTimingLevel1 redirected_timing) = 10
   \<and> navigationStart redirected_timing \<le> PerformanceTiming.domainLookupStart redirected_timing
   \<and> domainLookupStart (eventDataNavigationTimingLevel1 redirected_timing) = 20
   \<and> navigationStart redirected_timing \<le> PerformanceTiming.connectStart redirected_timing
   \<and> connectStart (eventDataNavigationTimingLevel1 redirected_timing) = 50
   \<and> navigationStart redirected_timing \<le> PerformanceTiming.secureConnectionStart redirected_timing
   \<and> secureConnectionStart (eventDataNavigationTimingLevel1 redirected_timing) = 80
   \<and> navigationStart redirected_timing \<le> PerformanceTiming.requestStart redirected_timing
   \<and> requestStart (eventDataNavigationTimingLevel1 redirected_timing) = 200
   \<and> navigationStart redirected_timing \<le> PerformanceTiming.responseStart redirected_timing
   \<and> responseStart (eventDataNavigationTimingLevel1 redirected_timing) = 250
   \<and> navigationStart redirected_timing \<le> PerformanceTiming.domInteractive redirected_timing
   \<and> domInteractive (eventDataNavigationTimingLevel1 redirected_timing) = 320
   \<and> navigationStart redirected_timing \<le> PerformanceTiming.domContentLoadedEventStart redirected_timing
   \<and> domContentLoadedEventStart (eventDataNavigationTimingLevel1 redirected_timing) = 330
   \<and> navigationStart redirected_timing \<le> PerformanceTiming.domComplete redirected_timing
   \<and> domComplete (eventDataNavigationTimingLevel1 redirected_timing) = 390
   \<and> navigationStart redirected_timing \<le> PerformanceTiming.loadEventStart redirected_timing
   \<and> loadEventStart (eventDataNavigationTimingLevel1 redirected_timing) = 400
   \<and> unloadEventStart (eventDataNavigationTimingLevel1 legacy_timing) = 0
   \<and> requestStart (eventDataNavigationTimingLevel1 legacy_timing) = 200
   \<and> responseStart (eventDataNavigationTimingLevel1 legacy_timing) = 250"
  using level1_offset_fields [of redirected_timing] level1_offset_fields [of legacy_timing]
  by (simp add: Let_def redirected_timing_def legacy_timing_def)

text \<open>
  C3, as the code has it. In the event built from \<open>performance.timing\<close>, the duration
  fields \<open>promptForUnload\<close>, \<open>redirectTime\<close>, \<open>dns\<close>, \<open>connect\<close>,
  \<open>domContentLoaded\<close>, \<open>domProcessingTime\<close>, \<open>loadEventTime\<close> and \<open>duration\<close> are
  the later boundary minus the earlier one, with no guard and no clamping, and
  \<open>timeToFirstByte\<close> is \<open>responseStart - requestStart\<close>. The field \<open>responseTime\<close>
  is guarded: it is \<open>responseEnd - responseStart\<close> when \<open>responseStart\<close> is greater
  than 0, and 0 otherwise.
\<close>

theorem level1_duration_fields:
  "let ev = eventDataNavigationTimingLevel1 t in
      promptForUnload ev =
        PerformanceTiming.unloadEventEnd t - PerformanceTiming.unloadEventStart t
      \<and> redirectTime ev = PerformanceTiming.redirectEnd t - PerformanceTiming.redirectStart t
      \<and> dns ev = PerformanceTiming.domainLookupEnd t - PerformanceTiming.domainLookupStart t
      \<and> connect ev = PerformanceTiming.connectEnd t - PerformanceTiming.connectStart t
      \<and> domContentLoaded ev =
          PerformanceTiming.domContentLoadedEventEnd t
          - PerformanceTiming.domContentLoadedEventStart t
      \<and> domProcessingTime ev =
          PerformanceTiming.loadEventStart t - PerformanceTiming.responseEnd t
      \<and> loadEventTime ev = PerformanceTiming.loadEventEnd t - PerformanceTiming.loadEventStart t
      \<and> duration ev = PerformanceTiming.loadEventEnd t - navigationStart t
      \<and> timeToFirstByte ev =
          PerformanceTiming.responseStart t - PerformanceTiming.requestStart t
      \<and> responseTime ev =
          (if PerformanceTiming.responseStart t > 0
           then PerformanceTiming.responseEnd t - PerformanceTiming.responseStart t else 0)"
  by (simp add: eventDataNavigationTimingLevel1_def Let_def)

theorem level1_duration_fields_witness:
  "timeToFirstByte (eventDataNavigationTimingLevel1 legacy_timing) = 50
   \<and> responseTime (eventDataNavigationTimingLevel1 legacy_timing) = 50
   \<and> duration (eventDataNavigationTimingLevel1 legacy_timing) = 450
   \<and> promptForUnload (eventDataNavigationTimingLevel1 legacy_timing) = 0
   \<and> responseTime (eventDataNavigationTimingLevel1 timing_responseStart_0) = 0"
  using level1_duration_fields [of legacy_timing]
    level1_duration_fields [of timing_responseStart_0]
  by (simp add: Let_def legacy_timing_def timing_responseStart_0_def)

text \<open>
  C3 in the words of the specification has \<open>responseTime\<close> among the unguarded
  differences. With the start of the response at 0 and its end at 1300 the difference is
  1300 and the field is 0.
\<close>

theorem level1_responseTime_counterexample:
  "PerformanceTiming.responseEnd timing_responseStart_0
     - PerformanceTiming.responseStart timing_responseStart_0 = 1300
   \<and> responseTime (eventDataNavigationTimingLevel1 timing_responseStart_0) = 0
   \<and> responseTime (eventDataNavigationTimingLevel1 timing_responseStart_0)
       \<noteq> PerformanceTiming.responseEnd timing_responseStart_0
         - PerformanceTiming.responseStart timing_responseStart_0"
  by (simp add: eventDataNavigationTimingLevel1_def Let_def timing_responseStart_0_def
      legacy_timing_def)

section \<open>Durations whose earlier boundary is 0\<close>

text \<open>
  C4, as the code has it. In an event of either path, the duration fields that carry a
  guard, \<open>tlsTime\<close> and \<open>responseTime\<close>, and \<open>workerTime\<close> on the Level 2 path, are 0
  when their earlier boundary (\<open>secureConnectionStart\<close>, \<open>responseStart\<close>,
  \<open>workerStart\<close>) is not greater than 0. Every other computed duration field whose
  earlier boundary is 0 is the later boundary itself.
\<close>

theorem duration_fields_at_boundary_0:
  "(let ev = eventDataNavigationTimingLevel1 t in
      (\<not> PerformanceTiming.secureConnectionStart t > 0 \<longrightarrow> tlsTime ev = 0)
      \<and> (\<not> PerformanceTiming.responseStart t > 0 \<longrightarrow> responseTime ev = 0)
      \<and> (PerformanceTiming.unloadEventStart t = 0
           \<longrightarrow> promptForUnload ev = PerformanceTiming.unloadEventEnd t)
      \<and> (PerformanceTiming.redirectStart t = 0
           \<longrightarrow> redirectTime ev = PerformanceTiming.redirectEnd t)
      \<and> (PerformanceTiming.domainLookupStart t = 0
           \<longrightarrow> dns ev = PerformanceTiming.domainLookupEnd t)
      \<and> (PerformanceTiming.connectStart t = 0
           \<longrightarrow> connect ev = PerformanceTiming.connectEnd t)
      \<and> (PerformanceTiming.requestStart t = 0
           \<longrightarrow> timeToFirstByte ev = PerformanceTiming.responseStart t)
      \<and> (PerformanceTiming.domContentLoadedEventStart t = 0
           \<longrightarrow> domContentLoaded ev = PerformanceTiming.domContentLoadedEventEnd t)
      \<and> (PerformanceTiming.responseEnd t = 0
           \<longrightarrow> domProcessingTime ev = PerformanceTiming.loadEventStart t)
      \<and> (PerformanceTiming.loadEventStart t = 0
           \<longrightarrow> loadEventTime ev = PerformanceTiming.loadEventEnd t)
      \<and> (navigationStart t = 0 \<longrightarrow> duration ev = PerformanceTiming.loadEventEnd t))
   \<and> (let ev = eventDataNavigationTimingLevel2 e in
      (\<not> PerformanceNavigationTiming.secureConnectionStart e > 0 \<longrightarrow> tlsTime ev = 0)
      \<and> (\<not> PerformanceNavigationTiming.responseStart e > 0 \<longrightarrow> responseTime ev = 0)
      \<and> (\<not> PerformanceNavigationTiming.workerStart e > 0 \<longrightarrow> workerTime ev = Some 0)
      \<and> (PerformanceNavigationTiming.unloadEventStart e = 0
           \<longrightarrow> promptForUnload ev = PerformanceNavigationTiming.unloadEventEnd e)
      \<and> (PerformanceNavigationTiming.redirectStart e = 0
           \<longrightarrow> redirectTime ev = PerformanceNavigationTiming.redirectEnd e)
      \<and> (PerformanceNavigationTiming.domainLookupStart e = 0
           \<longrightarrow> dns ev = PerformanceNavigationTiming.domainLookupEnd e)
      \<and> (PerformanceNavigationTiming.connectStart e = 0
           \<longrightarrow> connect ev = PerformanceNavigationTiming.connectEnd e)
      \<and> (PerformanceNavigationTiming.requestStart e = 0
           \<longrightarrow> timeToFirstByte ev = PerformanceNavigationTiming.responseStart e)
      \<and> (PerformanceNavigationTiming.domContentLoadedEventStart e = 0
           \<longrightarrow> domContentLoaded ev = PerformanceNavigationTiming.domContentLoadedEventEnd e)
      \<and> (PerformanceNavigationTiming.responseEnd e = 0
           \<longrightarrow> domProcessingTime ev = PerformanceNavigationTiming.loadEventStart e)
      \<and> (PerformanceNavigationTiming.loadEventStart e = 0
           \<longrightarrow> loadEventTime ev = PerformanceNavigationTiming.loadEventEnd e))"
  by (simp add: eventDataNavigationTimingLevel1_def eventDataNavigationTimingLevel2_def Let_def)

theorem duration_fields_at_boundary_0_witness:
  "\<not> PerformanceTiming.secureConnectionStart timing_starts_0 > 0
   \<and> tlsTime (eventDataNavigationTimingLevel1 timing_starts_0) = 0
   \<and> \<not> PerformanceTiming.responseStart timing_starts_0 > 0
   \<and> responseTime (eventDataNavigationTimingLevel1 timing_starts_0) = 0
   \<and> PerformanceTiming.unloadEventStart timing_starts_0 = 0
   \<and> promptForUnload (eventDataNavigationTimingLevel1 timing_starts_0) = 5
   \<and> PerformanceTiming.redirectStart timing_starts_0 = 0
   \<and> redirectTime (eventDataNavigationTimingLevel1 timing_starts_0) = 6
   \<and> PerformanceTiming.domainLookupStart timing_starts_0 = 0
   \<and> dns (eventDataNavigationTimingLevel1 timing_starts_0) = 7
   \<and> PerformanceTiming.connectStart timing_starts_0 = 0
   \<and> connect (eventDataNavigationTimingLevel1 timing_starts_0) = 8
   \<and> PerformanceTiming.requestStart timing_starts_0 = 0
   \<and> timeToFirstByte (eventDataNavigationTimingLevel1 timing_starts_0) = 0
   \<and> PerformanceTiming.domContentLoadedEventStart timing_starts_0 = 0
   \<and> domContentLoaded (eventDataNavigationTimingLevel1 timing_starts_0) = 9
   \<and> PerformanceTiming.responseEnd timing_starts_0 = 0
   \<and> domProcessingTime (eventDataNavigationTimingLevel1 timing_starts_0) = 0
   \<and> PerformanceTiming.loadEventStart timing_starts_0 = 0
   \<and> loadEventTime (eventDataNavigationTimingLevel1 timing_starts_0) = 10
   \<and> navigationStart timing_starts_0 = 0
   \<and> duration (eventDataNavigationTimingLevel1 timing_starts_0) = 10
   \<and> \<not> PerformanceNavigationTiming.secureConnectionStart entry_starts_0 > 0
   \<and> tlsTime (eventDataNavigationTimingLevel2 entry_starts_0) = 0
   \<and> \<not> PerformanceNavigationTiming.responseStart entry_starts_0 > 0
   \<and> responseTime (eventDataNavigationTimingLevel2 entry_starts_0) = 0
   \<and> \<not> PerformanceNavigationTiming.workerStart entry_starts_0 > 0
   \<and> workerTime (eventDataNavigationTimingLevel2 entry_starts_0) = Some 0
   \<and> PerformanceNavigationTiming.unloadEventStart entry_starts_0 = 0
   \<and> promptForUnload (eventDataNavigationTimingLevel2 entry_starts_0) = 5
   \<and> PerformanceNavigationTiming.redirectStart entry_starts_0 = 0
   \<and> redirectTime (eventDataNavigationTimingLevel2 entry_starts_0) = 6
   \<and> PerformanceNavigationTiming.domainLookupStart entry_starts_0 = 0
   \<and> dns (eventDataNavigationTimingLevel2 entry_starts_0) = 7
   \<and> PerformanceNavigationTiming.connectStart entry_starts_0 = 0
   \<and> connect (eventDataNavigationTimingLevel2 entry_starts_0) = 8
   \<and> PerformanceNavigationTiming.requestStart entry_starts_0 = 0
   \<and> timeToFirstByte (eventDataNavigationTimingLevel2 entry_starts_0) = 0
   \<and> PerformanceNavigationTiming.domContentLoadedEventStart entry_starts_0 = 0
   \<and> domContentLoaded (eventDataNavigationTimingLevel2 entry_starts_0) = 9
   \<and> PerformanceNavigationTiming.responseEnd entry_starts_0 = 0
   \<and> domProcessingTime (eventDataNavigationTimingLevel2 entry_starts_0) = 0
   \<and> PerformanceNavigationTiming.loadEventStart entry_starts_0 = 0
   \<and> loadEventTime (eventDataNavigationTimingLevel2 entry_starts_0) = 10
   \<and> PerformanceTiming.unloadEventStart timing_unloadEventStart_0 = 0
   \<and> promptForUnload (eventDataNavigationTimingLevel1 timing_unloadEventStart_0) = 1005
   \<and> PerformanceNavigationTiming.domContentLoadedEventStart modern_entry_dcl_0 = 0
   \<and> domContentLoaded (eventDataNavigationTimingLevel2 modern_entry_dcl_0) = 340"
  using duration_fields_at_boundary_0 [of timing_starts_0 entry_starts_0]
    duration_fields_at_boundary_0 [of timing_unloadEventStart_0 modern_entry_dcl_0]
  by (simp add: Let_def timing_starts_0_def entry_starts_0_def timing_unloadEventStart_0_def
      legacy_timing_def modern_entry_dcl_0_def modern_entry_def)

text \<open>
  C4 in the words of the specification has every duration field at 0 when its earlier
  boundary is 0. With the start of the unload at 0 and its end at 1005, \<open>promptForUnload\<close> of the
  Level 1 event is 1005; with the start of the \<open>DOMContentLoaded\<close> event at 0 and its
  end at 340, \<open>domContentLoaded\<close> of the Level 2 event is 340.
\<close>

theorem duration_not_0_counterexample:
  "PerformanceTiming.unloadEventStart timing_unloadEventStart_0 = 0
   \<and> promptForUnload (eventDataNavigationTimingLevel1 timing_unloadEventStart_0) \<noteq> 0
   \<and> PerformanceNavigationTiming.domContentLoadedEventStart modern_entry_dcl_0 = 0
   \<and> domContentLoaded (eventDataNavigationTimingLevel2 modern_entry_dcl_0) \<noteq> 0"
  by (simp add: eventDataNavigationTimingLevel1_def eventDataNavigationTimingLevel2_def
      Let_def timing_unloadEventStart_0_def legacy_timing_def modern_entry_dcl_0_def
      modern_entry_def)

section \<open>The Level 2 normalisation\<close>

text \<open>
  C5. In the event built from a navigation entry, \<open>headerSize\<close> is
  \<open>transferSize - encodedBodySize\<close>, and \<open>compressionRatio\<close> is
  \<open>decodedBodySize / encodedBodySize\<close> when \<open>encodedBodySize\<close> is greater than 0 and 0
  when it is 0; it is never the result of a division by zero. An entry with
  \<open>transferSize = 500\<close>, \<open>encodedBodySize = 300\<close> and \<open>decodedBodySize = 900\<close> gives
  \<open>headerSize = 200\<close> and \<open>compressionRatio = 3\<close>.
\<close>

theorem level2_headerSize_compressionRatio:
  "let ev = eventDataNavigationTimingLevel2 e in
      headerSize ev = Some (PerformanceNavigationTiming.transferSize e - encodedBodySize e)
      \<and> (encodedBodySize e > 0
           \<longrightarrow> compressionRatio ev = Some (Num (decodedBodySize e / encodedBodySize e)))
      \<and> (encodedBodySize e = 0 \<longrightarrow> compressionRatio ev = Some (Num 0))
      \<and> compressionRatio ev \<noteq> Some (js_div (decodedBodySize e) 0)
      \<and> (\<exists>r. compressionRatio ev = Some (Num r))
      \<and> (PerformanceNavigationTiming.transferSize e = 500 \<and> encodedBodySize e = 300
             \<and> decodedBodySize e = 900
           \<longrightarrow> headerSize ev = Some 200 \<and> compressionRatio ev = Some (Num 3))"
  by (simp add: eventDataNavigationTimingLevel2_def Let_def js_div_def)

theorem level2_headerSize_compressionRatio_witness:
  "PerformanceNavigationTiming.transferSize modern_entry = 500
   \<and> encodedBodySize modern_entry = 300 \<and> decodedBodySize modern_entry = 900
   \<and> headerSize (eventDataNavigationTimingLevel2 modern_entry) = Some 200
   \<and> compressionRatio (eventDataNavigationTimingLevel2 modern_entry) = Some (Num 3)
   \<and> encodedBodySize modern_entry_empty_body = 0
   \<and> compressionRatio (eventDataNavigationTimingLevel2 modern_entry_empty_body) = Some (Num 0)"
  using level2_headerSize_compressionRatio [of modern_entry]
    level2_headerSize_compressionRatio [of modern_entry_empty_body]
  by (simp add: Let_def modern_entry_def modern_entry_empty_body_def)

section \<open>Has the \<open>load\<close> event fired\<close>

text \<open>
  C6. \<open>hasTheWindowLoadEventFired\<close> is true exactly when the browser exposes at least
  one navigation entry and \<open>loadEventEnd\<close> of the first entry is not zero; with no
  performance API, or with no navigation entry, it is false.
\<close>

theorem hasTheWindowLoadEventFired_iff:
  "(hasTheWindowLoadEventFired w \<longleftrightarrow>
      (\<exists>p e es. performance (window w) = Some p
         \<and> getEntriesByType_NAVIGATION p = e # es
         \<and> PerformanceNavigationTiming.loadEventEnd e \<noteq> 0))
   \<and> (performance (window w) = None \<longrightarrow> \<not> hasTheWindowLoadEventFired w)
   \<and> (\<forall>p. performance (window w) = Some p \<and> getEntriesByType_NAVIGATION p = []
          \<longrightarrow> \<not> hasTheWindowLoadEventFired w)"
  using hasTheWindowLoadEventFired_entries [of w] by auto

theorem hasTheWindowLoadEventFired_iff_witness:
  "hasTheWindowLoadEventFired (fresh_world (Some modern_performance))
   \<and> \<not> hasTheWindowLoadEventFired (fresh_world (Some loading_performance))
   \<and> \<not> hasTheWindowLoadEventFired (fresh_world (Some legacy_performance))
   \<and> \<not> hasTheWindowLoadEventFired (fresh_world None)"
  using hasTheWindowLoadEventFired_iff [of "fresh_world (Some modern_performance)"]
    hasTheWindowLoadEventFired_iff [of "fresh_world (Some loading_performance)"]
    hasTheWindowLoadEventFired_iff [of "fresh_world (Some legacy_performance)"]
    hasTheWindowLoadEventFired_iff [of "fresh_world None"]
  by (simp add: fresh_world_def modern_performance_def loading_performance_def
      legacy_performance_def modern_entry_loading_def modern_entry_def)

section \<open>The choice of the normalisation\<close>

text \<open>
  C1. When \<open>eventListener\<close> runs and the navigation query returns no entry, the Level 1
  handler runs: nothing is recorded in the call itself, the closure \<open>recordNavigation\<close>
  is left to a timer, and the event that the timer records, if a callback is stored, has
  \<open>navigationTimingLevel = 1\<close>. When the query returns one entry or more, the Level 2
  handler runs on the first entry, whatever the others are: no timer is set, and the
  event recorded has \<open>navigationTimingLevel = 2\<close>. So one handler runs, and only one.
\<close>

theorem eventListener_selects_one_path:
  assumes "performance (window w) = Some p"
  shows
    "(getEntriesByType_NAVIGATION p = [] \<longrightarrow>
        eventListener w = Inr (performanceNavigationEventHandlerTimingLevel1 w)
        \<and> recorded (performanceNavigationEventHandlerTimingLevel1 w) = recorded w
        \<and> timers (window (performanceNavigationEventHandlerTimingLevel1 w)) =
            timers (window w) @ [RecordNavigation]
        \<and> (timers (window w) = [] \<longrightarrow>
             (\<exists>w'. runTimers (performanceNavigationEventHandlerTimingLevel1 w) = Inr w'
                \<and> plugin w' = plugin w \<and> window w' = window w
                \<and> recorded w' = recorded w @
                    (case recordEvent (plugin w) of
                       None \<Rightarrow> []
                     | Some cb \<Rightarrow> [(cb, PERFORMANCE_NAVIGATION_EVENT_TYPE,
                                    eventDataNavigationTimingLevel1 (timing p))])))
        \<and> navigationTimingLevel (eventDataNavigationTimingLevel1 (timing p)) = 1)
     \<and> (\<forall>e es. getEntriesByType_NAVIGATION p = e # es \<longrightarrow>
          eventListener w = Inr (performanceNavigationEventHandlerTimingLevel2 e w)
          \<and> plugin (performanceNavigationEventHandlerTimingLevel2 e w) = plugin w
          \<and> window (performanceNavigationEventHandlerTimingLevel2 e w) = window w
          \<and> recorded (performanceNavigationEventHandlerTimingLevel2 e w) = recorded w @
              (case recordEvent (plugin w) of
                 None \<Rightarrow> []
               | Some cb \<Rightarrow> [(cb, PERFORMANCE_NAVIGATION_EVENT_TYPE,
                              eventDataNavigationTimingLevel2 e)])
          \<and> navigationTimingLevel (eventDataNavigationTimingLevel2 e) = 2)"
proof -
  let ?l1 = "performanceNavigationEventHandlerTimingLevel1 w"
  have sync: "recorded ?l1 = recorded w"
    "timers (window ?l1) = timers (window w) @ [RecordNavigation]"
    by (simp_all add: performanceNavigationEventHandlerTimingLevel1_def setTimeout_def)
  have deferred: "\<exists>w'. runTimers ?l1 = Inr w'
      \<and> plugin w' = plugin w \<and> window w' = window w
      \<and> recorded w' = recorded w @
          (case recordEvent (plugin w) of
             None \<Rightarrow> []
           | Some cb \<Rightarrow> [(cb, PERFORMANCE_NAVIGATION_EVENT_TYPE,
                          eventDataNavigationTimingLevel1 (timing p))])"
    if idle: "timers (window w) = []"
  proof -
    have "runTimers ?l1 = recordNavigation w"
      using idle
      by (simp add: performanceNavigationEventHandlerTimingLevel1_def runTimers_setTimeout_idle)
    then show ?thesis
      using assms by (simp add: recordNavigation_cases)
  qed
  have level1: "eventListener w = Inr ?l1" if "getEntriesByType_NAVIGATION p = []"
    using assms that by (rule eventListener_no_entries)
  have level2: "eventListener w = Inr (performanceNavigationEventHandlerTimingLevel2 e w)"
    if "getEntriesByType_NAVIGATION p = e # es" for e es
    using assms that by (rule eventListener_first_entry)
  have effect2: "plugin (performanceNavigationEventHandlerTimingLevel2 e w) = plugin w"
    "window (performanceNavigationEventHandlerTimingLevel2 e w) = window w"
    "recorded (performanceNavigationEventHandlerTimingLevel2 e w) = recorded w @
       (case recordEvent (plugin w) of
          None \<Rightarrow> []
        | Some cb \<Rightarrow> [(cb, PERFORMANCE_NAVIGATION_EVENT_TYPE,
                       eventDataNavigationTimingLevel2 e)])" for e
    by (simp_all add: Level2_cases)
  from sync deferred level1 level2 effect2 show ?thesis
    by (simp only: navigationTimingLevel_Level1 navigationTimingLevel_Level2) blast
qed

theorem eventListener_selects_one_path_witness:
  "eventListener (initialized_world (Some legacy_performance)) =
     Inr (performanceNavigationEventHandlerTimingLevel1
            (initialized_world (Some legacy_performance)))
   \<and> recorded (performanceNavigationEventHandlerTimingLevel1
        (initialized_world (Some legacy_performance))) = []
   \<and> runTimers (performanceNavigationEventHandlerTimingLevel1
        (initialized_world (Some legacy_performance))) =
       Inr ((initialized_world (Some legacy_performance))
              \<lparr>recorded := [(7, PERFORMANCE_NAVIGATION_EVENT_TYPE,
                             eventDataNavigationTimingLevel1 legacy_timing)]\<rparr>)
   \<and> eventListener (initialized_world (Some modern_performance)) =
       Inr ((initialized_world (Some modern_performance))
              \<lparr>recorded := [(7, PERFORMANCE_NAVIGATION_EVENT_TYPE,
                             eventDataNavigationTimingLevel2 modern_entry)]\<rparr>)"
  using eventListener_selects_one_path
    [of "initialized_world (Some legacy_performance)" legacy_performance]
    eventListener_selects_one_path
    [of "initialized_world (Some modern_performance)" modern_performance]
  by (simp add: initialized_world_def fresh_world_def constructor_def sample_context_def
      legacy_performance_def modern_performance_def Level2_cases
      performanceNavigationEventHandlerTimingLevel1_def setTimeout_def runTimers_def
      recordNavigation_cases)

section \<open>The life cycle of the plugin\<close>

text \<open>
  C7. \<open>load(context)\<close> stores the recording callback. Then, when the plugin is enabled
  and the \<open>load\<close> event has fired, it calls \<open>eventListener\<close> itself: the event of the
  first navigation entry is recorded during the call and the window, with its listeners
  and timers, is left as it was. When the plugin is enabled and the \<open>load\<close> event has
  not fired, it registers \<open>eventListener\<close> for the \<open>load\<close> event and nothing is
  captured: the log and the timers are as before.
\<close>

theorem load_stores_then_captures_or_listens:
  "(\<exists>w'. load context w = Inr w' \<and> recordEvent (plugin w') = Some (record' context))
   \<and> (enabled (plugin w) \<and> hasTheWindowLoadEventFired w \<longrightarrow>
        load context w =
          eventListener (w\<lparr>plugin := (plugin w)\<lparr>recordEvent := Some (record' context)\<rparr>\<rparr>)
        \<and> (\<exists>w' p. load context w = Inr w' \<and> performance (window w) = Some p
              \<and> window w' = window w
              \<and> recorded w' = recorded w @
                  [(record' context, PERFORMANCE_NAVIGATION_EVENT_TYPE,
                    eventDataNavigationTimingLevel2 (getEntriesByType_NAVIGATION p ! 0))]))
   \<and> (enabled (plugin w) \<and> \<not> hasTheWindowLoadEventFired w \<longrightarrow>
        load context w =
          Inr (addEventListener EventListener
                 (w\<lparr>plugin := (plugin w)\<lparr>recordEvent := Some (record' context)\<rparr>\<rparr>))
        \<and> (\<exists>w'. load context w = Inr w'
              \<and> EventListener \<in> set (loadListeners (window w'))
              \<and> timers (window w') = timers (window w)
              \<and> recorded w' = recorded w))"
proof -
  let ?w1 = "w\<lparr>plugin := (plugin w)\<lparr>recordEvent := Some (record' context)\<rparr>\<rparr>"
  have perf: "\<exists>p. performance (window w) = Some p" if "hasTheWindowLoadEventFired w"
    using that by (auto simp add: hasTheWindowLoadEventFired_entries)
  have fired: "load context w =
          Inr (?w1\<lparr>recorded := recorded w @
                 [(record' context, PERFORMANCE_NAVIGATION_EVENT_TYPE,
                   eventDataNavigationTimingLevel2 (getEntriesByType_NAVIGATION p ! 0))]\<rparr>)"
    if en: "enabled (plugin w)" and hf: "hasTheWindowLoadEventFired w"
      and p: "performance (window w) = Some p" for p
  proof -
    from hf p obtain e es where es: "getEntriesByType_NAVIGATION p = e # es"
      by (auto simp add: hasTheWindowLoadEventFired_entries)
    have "eventListener ?w1 = Inr (performanceNavigationEventHandlerTimingLevel2 e ?w1)"
      using p es by (simp add: eventListener_first_entry)
    then show ?thesis
      using en hf p es by (simp add: load_def Let_def Level2_cases)
  qed
  have a: "\<exists>w'. load context w = Inr w' \<and> recordEvent (plugin w') = Some (record' context)"
  proof (cases "enabled (plugin w) \<and> hasTheWindowLoadEventFired w")
    case True
    then have en: "enabled (plugin w)" and hf: "hasTheWindowLoadEventFired w" by simp_all
    from perf [OF hf] obtain p where p: "performance (window w) = Some p" ..
    show ?thesis by (simp add: fired [OF en hf p])
  next
    case False
    then show ?thesis by (auto simp add: load_def Let_def addEventListener_def)
  qed
  have b: "load context w = eventListener ?w1
        \<and> (\<exists>w' p. load context w = Inr w' \<and> performance (window w) = Some p
              \<and> window w' = window w
              \<and> recorded w' = recorded w @
                  [(record' context, PERFORMANCE_NAVIGATION_EVENT_TYPE,
                    eventDataNavigationTimingLevel2 (getEntriesByType_NAVIGATION p ! 0))])"
    if en: "enabled (plugin w)" and hf: "hasTheWindowLoadEventFired w"
  proof
    show "load context w = eventListener ?w1"
      using en hf by (simp add: load_def Let_def)
    from perf [OF hf] obtain p where p: "performance (window w) = Some p" ..
    show "\<exists>w' p. load context w = Inr w' \<and> performance (window w) = Some p
              \<and> window w' = window w
              \<and> recorded w' = recorded w @
                  [(record' context, PERFORMANCE_NAVIGATION_EVENT_TYPE,
                    eventDataNavigationTimingLevel2 (getEntriesByType_NAVIGATION p ! 0))]"
      using p by (simp add: fired [OF en hf p])
  qed
  have c: "load context w = Inr (addEventListener EventListener ?w1)
        \<and> (\<exists>w'. load context w = Inr w'
              \<and> EventListener \<in> set (loadListeners (window w'))
              \<and> timers (window w') = timers (window w)
              \<and> recorded w' = recorded w)"
    if "enabled (plugin w)" and "\<not> hasTheWindowLoadEventFired w"
    using that by (simp add: load_def Let_def addEventListener_def)
  from a b c show ?thesis by blast
qed

theorem load_stores_then_captures_or_listens_witness:
  "enabled (plugin (fresh_world (Some modern_performance)))
   \<and> hasTheWindowLoadEventFired (fresh_world (Some modern_performance))
   \<and> load sample_context (fresh_world (Some modern_performance)) =
       Inr ((fresh_world (Some modern_performance))
              \<lparr>plugin := constructor\<lparr>recordEvent := Some 7\<rparr>,
               recorded := [(7, PERFORMANCE_NAVIGATION_EVENT_TYPE,
                             eventDataNavigationTimingLevel2 modern_entry)]\<rparr>)
   \<and> enabled (plugin (fresh_world (Some loading_performance)))
   \<and> \<not> hasTheWindowLoadEventFired (fresh_world (Some loading_performance))
   \<and> load sample_context (fresh_world (Some loading_performance)) =
       Inr \<lparr>plugin = constructor\<lparr>recordEvent := Some 7\<rparr>,
            window = \<lparr>performance = Some loading_performance,
                      loadListeners = [EventListener], timers = []\<rparr>,
            recorded = []\<rparr>"
  using load_stores_then_captures_or_listens
    [of sample_context "fresh_world (Some modern_performance)"]
    load_stores_then_captures_or_listens
    [of sample_context "fresh_world (Some loading_performance)"]
  by (simp add: hasTheWindowLoadEventFired_def Boolean_def Let_def load_def eventListener_def
      Level2_cases addEventListener_def fresh_world_def constructor_def sample_context_def
      modern_performance_def loading_performance_def modern_entry_loading_def modern_entry_def)

text \<open>
  C8. \<open>enable\<close> on an enabled plugin and \<open>disable\<close> on a disabled one change
  nothing, so calling either twice is calling it once; both are total. After \<open>enable\<close>,
  once or twice, on a disabled plugin whose listener is not registered, the listener is
  registered once, and the \<open>load\<close> event calls \<open>eventListener\<close> once.
\<close>

theorem enable_disable_idempotent:
  "(enabled (plugin w) \<longrightarrow> enable w = w)
   \<and> enable (enable w) = enable w
   \<and> (\<not> enabled (plugin w) \<longrightarrow> disable w = w)
   \<and> disable (disable w) = disable w
   \<and> (\<not> enabled (plugin w) \<and> EventListener \<notin> set (loadListeners (window w)) \<longrightarrow>
        count_list (loadListeners (window (enable w))) EventListener = 1
        \<and> count_list (loadListeners (window (enable (enable w)))) EventListener = 1)
   \<and> (\<not> enabled (plugin w) \<and> loadListeners (window w) = [] \<longrightarrow>
        dispatchLoadEvent (enable (enable w)) = eventListener (enable w))"
proof -
  have e1: "enabled (plugin (enable w))"
    by (simp add: enable_def addEventListener_def)
  have d1: "\<not> enabled (plugin (disable w))"
    by (simp add: disable_def removeEventListener_def)
  have ee: "enable (enable w) = enable w"
    using e1 by (simp add: enable_def [of "enable w"])
  have dd: "disable (disable w) = disable w"
    using d1 by (simp add: disable_def [of "disable w"])
  have cnt: "count_list (loadListeners (window (enable w))) EventListener = 1"
    if "\<not> enabled (plugin w)" and "EventListener \<notin> set (loadListeners (window w))"
    using that by (simp add: enable_def addEventListener_def count_list_0_iff)
  have disp: "dispatchLoadEvent (enable w) = eventListener (enable w)"
    if "\<not> enabled (plugin w)" and "loadListeners (window w) = []"
    using that
    by (simp add: dispatchLoadEvent_def enable_def addEventListener_def split: sum.splits)
  have en: "enable w = w" if "enabled (plugin w)"
    using that by (simp add: enable_def)
  have di: "disable w = w" if "\<not> enabled (plugin w)"
    using that by (simp add: disable_def)
  from en di ee dd cnt disp show ?thesis by simp
qed

theorem enable_disable_idempotent_witness:
  "enabled (plugin (fresh_world None))
   \<and> enable (fresh_world None) = fresh_world None
   \<and> \<not> enabled (plugin (disable (fresh_world None)))
   \<and> disable (disable (fresh_world None)) = disable (fresh_world None)
   \<and> loadListeners (window (disable (fresh_world None))) = []
   \<and> loadListeners (window (enable (enable (disable (fresh_world None))))) = [EventListener]
   \<and> count_list (loadListeners (window (enable (enable (disable (fresh_world None))))))
         EventListener = 1"
  using enable_disable_idempotent [of "fresh_world None"]
    enable_disable_idempotent [of "disable (fresh_world None)"]
  by (simp add: fresh_world_def constructor_def disable_def enable_def
      removeEventListener_def addEventListener_def)

section \<open>A capture with no callback\<close>

text \<open>
  C9. When no recording callback is stored at the moment a handler reads it, the Level 2
  handler leaves the world as it is, and so does the closure \<open>recordNavigation\<close> of the
  Level 1 handler: no call of a callback is logged and no error is returned. The whole firing, \<open>eventListener\<close> and
  then the timer it may have set, ends in the world it started from, so the plugin is
  unchanged and no event is kept for later.
\<close>

theorem no_callback_drops_event:
  assumes "recordEvent (plugin w) = None"
  shows "performanceNavigationEventHandlerTimingLevel2 e w = w
     \<and> (\<forall>p. performance (window w) = Some p \<longrightarrow>
          recordNavigation w = Inr w
          \<and> (\<exists>w'. eventListener w = Inr w' \<and> plugin w' = plugin w \<and> recorded w' = recorded w)
          \<and> (timers (window w) = [] \<longrightarrow>
               (\<exists>w'. eventListener w = Inr w' \<and> runTimers w' = Inr w)))"
proof -
  have l2: "performanceNavigationEventHandlerTimingLevel2 e w = w" for e
    using assms by (simp add: Level2_cases)
  have rn: "recordNavigation w = Inr w" if "performance (window w) = Some p" for p
    using that assms by (simp add: recordNavigation_cases)
  have el: "\<exists>w'. eventListener w = Inr w' \<and> plugin w' = plugin w \<and> recorded w' = recorded w"
    if "performance (window w) = Some p" for p
    using that l2
    by (simp add: eventListener_def performanceNavigationEventHandlerTimingLevel1_def
        setTimeout_def)
  have full: "\<exists>w'. eventListener w = Inr w' \<and> runTimers w' = Inr w"
    if p: "performance (window w) = Some p" and idle: "timers (window w) = []" for p
  proof (cases "getEntriesByType_NAVIGATION p")
    case Nil
    then show ?thesis
      using p idle rn [OF p]
      by (simp add: eventListener_no_entries performanceNavigationEventHandlerTimingLevel1_def
          runTimers_setTimeout_idle)
  next
    case (Cons e es)
    then show ?thesis
      using p idle l2 by (simp add: eventListener_first_entry runTimers_idle)
  qed
  from l2 rn el full show ?thesis by blast
qed


theorem no_callback_drops_event_witness:
  "recordEvent (plugin (fresh_world (Some legacy_performance))) = None
   \<and> recordEvent (plugin (fresh_world (Some modern_performance))) = None
   \<and> recordNavigation (fresh_world (Some legacy_performance)) =
       Inr (fresh_world (Some legacy_performance))
   \<and> performanceNavigationEventHandlerTimingLevel2 modern_entry
       (fresh_world (Some modern_performance)) = fresh_world (Some modern_performance)
   \<and> (\<exists>w'. eventListener (fresh_world (Some legacy_performance)) = Inr w'
         \<and> runTimers w' = Inr (fresh_world (Some legacy_performance)))
   \<and> (\<exists>w'. eventListener (fresh_world (Some modern_performance)) = Inr w'
         \<and> runTimers w' = Inr (fresh_world (Some modern_performance)))"
  using no_callback_drops_event
    [of "fresh_world (Some legacy_performance)" modern_entry]
    no_callback_drops_event
    [of "fresh_world (Some modern_performance)" modern_entry]
  by (simp add: fresh_world_def constructor_def)

section \<open>A callback stored while the plugin is disabled\<close>

text \<open>
  C10. \<open>load(context)\<close> stores the recording callback before it looks at \<open>enabled\<close>:
  on a disabled plugin it does nothing else. If \<open>enable\<close> is then called and the
  \<open>load\<close> event fires, on a page with a performance API, the event is recorded with
  that callback.
\<close>

theorem load_while_disabled_keeps_callback:
  "(\<exists>w'. load context w = Inr w' \<and> recordEvent (plugin w') = Some (record' context))
   \<and> (\<not> enabled (plugin w) \<longrightarrow>
        load context w =
          Inr (w\<lparr>plugin := (plugin w)\<lparr>recordEvent := Some (record' context)\<rparr>\<rparr>))
   \<and> (\<forall>p. \<not> enabled (plugin w) \<and> loadListeners (window w) = []
            \<and> timers (window w) = [] \<and> performance (window w) = Some p \<longrightarrow>
          (\<exists>w1 w2 w3. load context w = Inr w1
             \<and> dispatchLoadEvent (enable w1) = Inr w2
             \<and> runTimers w2 = Inr w3
             \<and> recorded w3 = recorded w @
                 [(record' context, PERFORMANCE_NAVIGATION_EVENT_TYPE,
                   if length (getEntriesByType_NAVIGATION p) = 0
                   then eventDataNavigationTimingLevel1 (timing p)
                   else eventDataNavigationTimingLevel2 (getEntriesByType_NAVIGATION p ! 0))]))"
proof -
  let ?w1 = "w\<lparr>plugin := (plugin w)\<lparr>recordEvent := Some (record' context)\<rparr>\<rparr>"
  have stored: "\<exists>w'. load context w = Inr w' \<and> recordEvent (plugin w') = Some (record' context)"
  proof (cases "enabled (plugin w) \<and> hasTheWindowLoadEventFired w")
    case True
    then obtain p e es where p: "performance (window w) = Some p"
      and es: "getEntriesByType_NAVIGATION p = e # es"
      by (auto simp add: hasTheWindowLoadEventFired_entries)
    have "eventListener ?w1 = Inr (performanceNavigationEventHandlerTimingLevel2 e ?w1)"
      using p es by (simp add: eventListener_first_entry)
    with True show ?thesis by (simp add: load_def Let_def Level2_cases)
  next
    case False
    then show ?thesis by (auto simp add: load_def Let_def addEventListener_def)
  qed
  have kept: "load context w = Inr ?w1" if "\<not> enabled (plugin w)"
    using that by (simp add: load_def Let_def)
  have later: "\<exists>w1 w2 w3. load context w = Inr w1
             \<and> dispatchLoadEvent (enable w1) = Inr w2
             \<and> runTimers w2 = Inr w3
             \<and> recorded w3 = recorded w @
                 [(record' context, PERFORMANCE_NAVIGATION_EVENT_TYPE,
                   if length (getEntriesByType_NAVIGATION p) = 0
                   then eventDataNavigationTimingLevel1 (timing p)
                   else eventDataNavigationTimingLevel2 (getEntriesByType_NAVIGATION p ! 0))]"
    if dis: "\<not> enabled (plugin w)" and nol: "loadListeners (window w) = []"
      and idle: "timers (window w) = []" and p: "performance (window w) = Some p" for p
  proof -
    let ?w2 = "enable ?w1"
    have w2: "performance (window ?w2) = Some p" "timers (window ?w2) = []"
      "recordEvent (plugin ?w2) = Some (record' context)" "recorded ?w2 = recorded w"
      using dis idle p by (simp_all add: enable_def addEventListener_def)
    have disp: "dispatchLoadEvent ?w2 = eventListener ?w2"
      using dis nol
      by (simp add: dispatchLoadEvent_def enable_def addEventListener_def split: sum.splits)
    show ?thesis
    proof (cases "getEntriesByType_NAVIGATION p")
      case Nil
      have "eventListener ?w2 = Inr (setTimeout RecordNavigation ?w2)"
        using w2(1) Nil
        by (simp add: eventListener_no_entries performanceNavigationEventHandlerTimingLevel1_def)
      moreover have "runTimers (setTimeout RecordNavigation ?w2) = recordNavigation ?w2"
        using w2(2) by (simp add: runTimers_setTimeout_idle)
      moreover have "recordNavigation ?w2 =
          Inr (?w2\<lparr>recorded := recorded w @
             [(record' context, PERFORMANCE_NAVIGATION_EVENT_TYPE,
               eventDataNavigationTimingLevel1 (timing p))]\<rparr>)"
        using w2 by (simp add: recordNavigation_cases)
      ultimately show ?thesis
        using kept [OF dis] disp Nil by simp
    next
      case (Cons e es)
      let ?w3 = "performanceNavigationEventHandlerTimingLevel2 e ?w2"
      have "eventListener ?w2 = Inr ?w3"
        using w2(1) Cons by (simp add: eventListener_first_entry)
      moreover have "timers (window ?w3) = []"
        using w2(2) by (simp add: Level2_cases)
      then have "runTimers ?w3 = Inr ?w3"
        by (rule runTimers_idle)
      moreover have "recorded ?w3 = recorded w @
             [(record' context, PERFORMANCE_NAVIGATION_EVENT_TYPE,
               eventDataNavigationTimingLevel2 e)]"
        using w2 by (simp add: Level2_cases)
      ultimately show ?thesis
        using kept [OF dis] disp Cons by simp
    qed
  qed
  from stored kept later show ?thesis by blast
qed

theorem load_while_disabled_keeps_callback_witness:
  "\<not> enabled (plugin (disable (fresh_world (Some legacy_performance))))
   \<and> load sample_context (disable (fresh_world (Some legacy_performance))) =
       Inr ((disable (fresh_world (Some legacy_performance)))
              \<lparr>plugin := constructor\<lparr>enabled := False, recordEvent := Some 7\<rparr>\<rparr>)
   \<and> (\<exists>w1 w2 w3.
         load sample_context (disable (fresh_world (Some legacy_performance))) = Inr w1
         \<and> dispatchLoadEvent (enable w1) = Inr w2
         \<and> runTimers w2 = Inr w3
         \<and> recorded w3 =
             [(7, PERFORMANCE_NAVIGATION_EVENT_TYPE,
               eventDataNavigationTimingLevel1 legacy_timing)])"
  using load_while_disabled_keeps_callback
    [of sample_context "disable (fresh_world (Some legacy_performance))"]
  by (simp add: load_def Let_def disable_def removeEventListener_def fresh_world_def
      constructor_def legacy_performance_def sample_context_def)

end
